theory Spec2Isabelle
  imports Complex_Main "HOL-Library.Sublist" "HOL-Library.AList"
begin

section \<open>JavaScript values\<close>

text \<open>
  The geospatial code of \<^verbatim>\<open>App.tsx\<close> (the map screen) and of
  \<^verbatim>\<open>GeoJSONLayer.tsx\<close> works on untyped data (\<^verbatim>\<open>any\<close>) and
  protects itself with run-time tests (\<^verbatim>\<open>!x\<close>, \<^verbatim>\<open>Array.isArray\<close>,
  \<^verbatim>\<open>typeof\<close>, \<^verbatim>\<open>isNaN\<close>). The embedding therefore keeps the values
  dynamic.

  A number is a finite double (given by its real value), one of the two infinities, or
  NaN. The sign of zero is not modelled.
\<close>

datatype jsnum = Fin real | PInf | NInf | NaN

datatype jsval =
    JUndefined
  | JNull
  | JBool bool
  | JNum jsnum
  | JStr string
  | JArr "jsval list"
  | JObj "(string \<times> jsval) list"

datatype error = TypeError

subsection \<open>The platform\<close>

text \<open>
  The arithmetic of doubles and the functions of \<^verbatim>\<open>Math\<close> belong to the JavaScript
  engine, not to the repository, and the results of the code depend on their rounding. They
  are a parameter of the model: \<open>round_double\<close> is the rounding of an exact result to
  the double that the operation returns (an infinity on overflow), \<open>math_sin\<close> and
  \<open>math_cos\<close> are \<^verbatim>\<open>Math.sin\<close> and \<^verbatim>\<open>Math.cos\<close> on finite arguments,
  \<open>math_atan2\<close> is \<^verbatim>\<open>Math.atan2\<close> on arguments other than NaN, and
  \<open>math_PI\<close> is \<^verbatim>\<open>Math.PI\<close>. What IEEE 754 and ECMAScript fix for every engine
  is written out: the basic operations and the square root round the exact result, NaN
  propagates, the square root of a negative number and the sine and cosine of an
  infinity are NaN.
\<close>

record platform =
  round_double :: "real \<Rightarrow> jsnum"
  math_sin :: "real \<Rightarrow> real"
  math_cos :: "real \<Rightarrow> real"
  math_atan2 :: "jsnum \<Rightarrow> jsnum \<Rightarrow> jsnum"
  math_PI :: real

subsection \<open>Arithmetic on numbers\<close>

fun num_neg :: "jsnum \<Rightarrow> jsnum" where
  "num_neg (Fin a) = Fin (- a)"
| "num_neg PInf = NInf"
| "num_neg NInf = PInf"
| "num_neg NaN = NaN"

fun num_add :: "platform \<Rightarrow> jsnum \<Rightarrow> jsnum \<Rightarrow> jsnum" where
  "num_add M NaN _ = NaN"
| "num_add M _ NaN = NaN"
| "num_add M (Fin a) (Fin b) = round_double M (a + b)"
| "num_add M PInf NInf = NaN"
| "num_add M NInf PInf = NaN"
| "num_add M PInf _ = PInf"
| "num_add M _ PInf = PInf"
| "num_add M NInf _ = NInf"
| "num_add M _ NInf = NInf"

definition num_sub :: "platform \<Rightarrow> jsnum \<Rightarrow> jsnum \<Rightarrow> jsnum" where
  "num_sub M a b = num_add M a (num_neg b)"

definition inf_of_sign :: "real \<Rightarrow> jsnum" where
  "inf_of_sign s = (if s = 0 then NaN else if 0 < s then PInf else NInf)"

fun num_mul :: "platform \<Rightarrow> jsnum \<Rightarrow> jsnum \<Rightarrow> jsnum" where
  "num_mul M NaN _ = NaN"
| "num_mul M _ NaN = NaN"
| "num_mul M (Fin a) (Fin b) = round_double M (a * b)"
| "num_mul M (Fin a) PInf = inf_of_sign a"
| "num_mul M (Fin a) NInf = inf_of_sign (- a)"
| "num_mul M PInf (Fin b) = inf_of_sign b"
| "num_mul M NInf (Fin b) = inf_of_sign (- b)"
| "num_mul M PInf PInf = PInf"
| "num_mul M NInf NInf = PInf"
| "num_mul M PInf NInf = NInf"
| "num_mul M NInf PInf = NInf"

fun num_div :: "platform \<Rightarrow> jsnum \<Rightarrow> jsnum \<Rightarrow> jsnum" where
  "num_div M NaN _ = NaN"
| "num_div M _ NaN = NaN"
| "num_div M (Fin a) (Fin b) = (if b = 0 then inf_of_sign a else round_double M (a / b))"
| "num_div M (Fin a) _ = Fin 0"
| "num_div M PInf (Fin b) = (if 0 \<le> b then PInf else NInf)"
| "num_div M NInf (Fin b) = (if 0 \<le> b then NInf else PInf)"
| "num_div M _ _ = NaN"

fun num_sin :: "platform \<Rightarrow> jsnum \<Rightarrow> jsnum" where
  "num_sin M (Fin x) = Fin (math_sin M x)"
| "num_sin M _ = NaN"

fun num_cos :: "platform \<Rightarrow> jsnum \<Rightarrow> jsnum" where
  "num_cos M (Fin x) = Fin (math_cos M x)"
| "num_cos M _ = NaN"

fun num_sqrt :: "platform \<Rightarrow> jsnum \<Rightarrow> jsnum" where
  "num_sqrt M (Fin x) = (if x < 0 then NaN else round_double M (sqrt x))"
| "num_sqrt M PInf = PInf"
| "num_sqrt M _ = NaN"

fun num_atan2 :: "platform \<Rightarrow> jsnum \<Rightarrow> jsnum \<Rightarrow> jsnum" where
  "num_atan2 M NaN _ = NaN"
| "num_atan2 M _ NaN = NaN"
| "num_atan2 M y x = math_atan2 M y x"

text \<open>\<^verbatim>\<open>a <= b\<close> and \<^verbatim>\<open>a == b\<close> on numbers: both are false as soon as one side is NaN.\<close>

fun num_le :: "jsnum \<Rightarrow> jsnum \<Rightarrow> bool" where
  "num_le NaN _ = False"
| "num_le _ NaN = False"
| "num_le (Fin a) (Fin b) = (a \<le> b)"
| "num_le NInf _ = True"
| "num_le _ PInf = True"
| "num_le _ _ = False"

fun num_eq :: "jsnum \<Rightarrow> jsnum \<Rightarrow> bool" where
  "num_eq NaN _ = False"
| "num_eq _ NaN = False"
| "num_eq a b = (a = b)"

subsection \<open>Truthiness, property access, indexing\<close>

fun truthy :: "jsval \<Rightarrow> bool" where
  "truthy JUndefined = False"
| "truthy JNull = False"
| "truthy (JBool b) = b"
| "truthy (JNum n) = (n \<noteq> Fin 0 \<and> n \<noteq> NaN)"
| "truthy (JStr s) = (s \<noteq> [])"
| "truthy (JArr xs) = True"
| "truthy (JObj kvs) = True"

text \<open>
  \<^verbatim>\<open>v.k\<close> for one of the data keys used by the code (\<^verbatim>\<open>geometry\<close>,
  \<^verbatim>\<open>coordinates\<close>, \<^verbatim>\<open>type\<close>, \<^verbatim>\<open>features\<close>, \<^verbatim>\<open>properties\<close>, ...).
  A primitive or an array has no such property and gives \<^verbatim>\<open>undefined\<close>. Reading a
  property of \<^verbatim>\<open>null\<close> or \<^verbatim>\<open>undefined\<close> throws; \<open>getPropChecked\<close> makes that
  explicit, and \<open>getProp\<close> is used only behind a truthiness test of the receiver, where it
  cannot happen. The \<^verbatim>\<open>length\<close> of an array is read from the list, never through
  \<open>getProp\<close>.
\<close>

fun getProp :: "jsval \<Rightarrow> string \<Rightarrow> jsval" where
  "getProp (JObj kvs) k = (case map_of kvs k of Some v \<Rightarrow> v | None \<Rightarrow> JUndefined)"
| "getProp _ k = JUndefined"

fun getPropChecked :: "jsval \<Rightarrow> string \<Rightarrow> error + jsval" where
  "getPropChecked JUndefined k = Inl TypeError"
| "getPropChecked JNull k = Inl TypeError"
| "getPropChecked v k = Inr (getProp v k)"

text \<open>\<^verbatim>\<open>xs[i]\<close>: out of range is \<^verbatim>\<open>undefined\<close>.\<close>

definition idx :: "jsval list \<Rightarrow> nat \<Rightarrow> jsval" where
  "idx xs i = (if i < length xs then xs ! i else JUndefined)"

text \<open>\<^verbatim>\<open>typeof v !== 'number' || isNaN(v)\<close> fails exactly on the numbers other than NaN.\<close>

fun number_of :: "jsval \<Rightarrow> jsnum option" where
  "number_of (JNum n) = (if n = NaN then None else Some n)"
| "number_of _ = None"

section \<open>Distance calculator (\<^verbatim>\<open>calculateDistance\<close>)\<close>

definition calculateDistance ::
  "platform \<Rightarrow> jsnum \<Rightarrow> jsnum \<Rightarrow> jsnum \<Rightarrow> jsnum \<Rightarrow> jsnum" where
  "calculateDistance M lat1 lon1 lat2 lon2 =
     (let R = Fin 6371;
          dLat = num_div M (num_mul M (num_sub M lat2 lat1) (Fin (math_PI M))) (Fin 180);
          dLon = num_div M (num_mul M (num_sub M lon2 lon1) (Fin (math_PI M))) (Fin 180);
          a = num_add M
                (num_mul M (num_sin M (num_div M dLat (Fin 2)))
                           (num_sin M (num_div M dLat (Fin 2))))
                (num_mul M
                  (num_mul M
                    (num_mul M
                      (num_cos M (num_div M (num_mul M lat1 (Fin (math_PI M))) (Fin 180)))
                      (num_cos M (num_div M (num_mul M lat2 (Fin (math_PI M))) (Fin 180))))
                    (num_sin M (num_div M dLon (Fin 2))))
                  (num_sin M (num_div M dLon (Fin 2))));
          c = num_mul M (Fin 2)
                (num_atan2 M (num_sqrt M a) (num_sqrt M (num_sub M (Fin 1) a)))
      in num_mul M R c)"

section \<open>Proximity filter (\<^verbatim>\<open>filterNearbyFeatures\<close>)\<close>

text \<open>
  The \<^verbatim>\<open>try\<close> block of the filter callback picks \<^verbatim>\<open>featureLat\<close> and
  \<^verbatim>\<open>featureLon\<close> by geometry type; \<open>None\<close> is its \<^verbatim>\<open>return false\<close>.
  Every read inside it is behind an \<^verbatim>\<open>Array.isArray\<close> test, so the
  \<^verbatim>\<open>catch\<close> branch is never taken.
\<close>

definition extractLatLon :: "jsval \<Rightarrow> (jsval \<times> jsval) option" where
  "extractLatLon geometry =
     (let coordinates = getProp geometry ''coordinates'' in
      if getProp geometry ''type'' = JStr ''Point'' then
        (case coordinates of
           JArr cs \<Rightarrow> if length cs < 2 then None else Some (idx cs 1, idx cs 0)
         | _ \<Rightarrow> None)
      else if getProp geometry ''type'' = JStr ''LineString'' then
        (case coordinates of
           JArr cs \<Rightarrow>
             if length cs = 0 then None
             else (case idx cs 0 of
                     JArr p \<Rightarrow> if length p < 2 then None else Some (idx p 1, idx p 0)
                   | _ \<Rightarrow> None)
         | _ \<Rightarrow> None)
      else if getProp geometry ''type'' = JStr ''MultiLineString'' then
        (case coordinates of
           JArr cs \<Rightarrow>
             if length cs = 0 then None
             else (case idx cs 0 of
                     JArr l \<Rightarrow>
                       if length l = 0 then None
                       else (case idx l 0 of
                               JArr p \<Rightarrow>
                                 if length p < 2 then None else Some (idx p 1, idx p 0)
                             | _ \<Rightarrow> None)
                   | _ \<Rightarrow> None)
         | _ \<Rightarrow> None)
      else None)"

text \<open>The callback given to \<^verbatim>\<open>dataset.features.filter\<close>.\<close>

definition isNearby :: "platform \<Rightarrow> jsnum \<Rightarrow> jsnum \<Rightarrow> jsnum \<Rightarrow> jsval \<Rightarrow> bool" where
  "isNearby M userLat userLon radiusKm feature =
     (if \<not> truthy feature then False
      else if \<not> truthy (getProp feature ''geometry'') then False
      else if \<not> truthy (getProp (getProp feature ''geometry'') ''coordinates'') then False
      else
        (case extractLatLon (getProp feature ''geometry'') of
           None \<Rightarrow> False
         | Some (la, lo) \<Rightarrow>
             (case number_of la of
                None \<Rightarrow> False
              | Some featureLat \<Rightarrow>
                  (case number_of lo of
                     None \<Rightarrow> False
                   | Some featureLon \<Rightarrow>
                       num_le (calculateDistance M userLat userLon featureLat featureLon)
                         radiusKm))))"

definition emptyCollection :: jsval where
  "emptyCollection = JObj [(''type'', JStr ''FeatureCollection''), (''features'', JArr [])]"

text \<open>
  The callback given to \<^verbatim>\<open>data.map\<close>. A dataset that passes the guard has an
  array under \<^verbatim>\<open>features\<close>, so it is an object, and
  \<^verbatim>\<open>{...dataset, features: kept}\<close> is the same property list with the value of
  \<^verbatim>\<open>features\<close> replaced in place.
\<close>

definition filterDataset :: "platform \<Rightarrow> jsnum \<Rightarrow> jsnum \<Rightarrow> jsnum \<Rightarrow> jsval \<Rightarrow> jsval" where
  "filterDataset M userLat userLon radiusKm dataset =
     (if \<not> truthy dataset then emptyCollection
      else
        (case getProp dataset ''features'' of
           JArr fs \<Rightarrow>
             (case dataset of
                JObj kvs \<Rightarrow>
                  JObj (AList.update ''features''
                         (JArr (filter (isNearby M userLat userLon radiusKm) fs)) kvs)
              | _ \<Rightarrow> emptyCollection)
         | _ \<Rightarrow> emptyCollection))"

definition filterNearbyFeatures :: "platform \<Rightarrow> jsval \<Rightarrow> jsnum \<Rightarrow> jsnum \<Rightarrow> jsnum \<Rightarrow> jsval list" where
  "filterNearbyFeatures M data userLat userLon radiusKm =
     (case data of
        JArr ds \<Rightarrow> map (filterDataset M userLat userLon radiusKm) ds
      | _ \<Rightarrow> [])"

section \<open>Feature collection store (\<^verbatim>\<open>updateNearbyFeatures\<close>)\<close>

text \<open>
  The state of the map screen that the engine reads and writes: the complete view
  \<^verbatim>\<open>allGeoJsonData\<close>, the nearby view \<^verbatim>\<open>geoJsonData\<close>, and the reference
  (\<^verbatim>\<open>location\<close>, \<^verbatim>\<open>region\<close>). A \<^verbatim>\<open>setX(v)\<close> of React is the update of
  the field.
\<close>

record mapState =
  location :: jsval
  region :: jsval
  geoJsonData :: "jsval list"
  allGeoJsonData :: "jsval list"

text \<open>
  The two arguments are declared \<^verbatim>\<open>number\<close>, but the function tests them at run time,
  so they are values here. Inside the \<^verbatim>\<open>try\<close> nothing can throw (the filter reads
  behind guards only), so its \<^verbatim>\<open>catch\<close> is not a branch of the model.
\<close>

definition updateNearbyFeatures :: "platform \<Rightarrow> mapState \<Rightarrow> jsval \<Rightarrow> jsval \<Rightarrow> mapState" where
  "updateNearbyFeatures M st userLat userLon =
     (if allGeoJsonData st = [] then st
      else
        (case number_of userLat of
           None \<Rightarrow> st
         | Some la \<Rightarrow>
             (case number_of userLon of
                None \<Rightarrow> st
              | Some lo \<Rightarrow>
                  st\<lparr>geoJsonData :=
                       filterNearbyFeatures M (JArr (allGeoJsonData st)) la lo (Fin 10)\<rparr>)))"

text \<open>The features a view shows for one collection (what the layer iterates over).\<close>

definition featuresOf :: "jsval \<Rightarrow> jsval list" where
  "featuresOf dataset = (case getProp dataset ''features'' of JArr fs \<Rightarrow> fs | _ \<Rightarrow> [])"

text \<open>
  Containment of one view in another: every feature shown is a feature loaded.
\<close>

definition viewWithin :: "jsval list \<Rightarrow> jsval list \<Rightarrow> bool" where
  "viewWithin shown loaded =
     (set (concat (map featuresOf shown)) \<subseteq> set (concat (map featuresOf loaded)))"

section \<open>Representative points, in the words of the specification\<close>

text \<open>
  The specification describes the filter through a representative coordinate per
  geometry kind: a Point has its own coordinate, a LineString its first coordinate, a
  MultiLineString the first coordinate of its first line; a coordinate is a pair
  (longitude, latitude) of numbers. These definitions follow that description, not the
  code, and are compared with \<open>isNearby\<close> below.
\<close>

fun firstElement :: "jsval \<Rightarrow> jsval option" where
  "firstElement (JArr (x # xs)) = Some x"
| "firstElement _ = None"

fun coordinatePair :: "jsval \<Rightarrow> (jsnum \<times> jsnum) option" where
  "coordinatePair (JArr (lon # lat # rest)) =
     (case (number_of lat, number_of lon) of
        (Some la, Some lo) \<Rightarrow> Some (la, lo)
      | _ \<Rightarrow> None)"
| "coordinatePair _ = None"

definition representativePoint :: "jsval \<Rightarrow> (jsnum \<times> jsnum) option" where
  "representativePoint feature =
     (let geometry = getProp feature ''geometry'';
          kind = getProp geometry ''type'';
          coordinates = getProp geometry ''coordinates''
      in if kind = JStr ''Point'' then coordinatePair coordinates
         else if kind = JStr ''LineString'' then
           Option.bind (firstElement coordinates) coordinatePair
         else if kind = JStr ''MultiLineString'' then
           Option.bind (Option.bind (firstElement coordinates) firstElement) coordinatePair
         else None)"

definition withinRadius :: "platform \<Rightarrow> jsnum \<Rightarrow> jsnum \<Rightarrow> jsnum \<Rightarrow> jsval \<Rightarrow> bool" where
  "withinRadius M refLat refLon radiusKm feature =
     (case representativePoint feature of
        None \<Rightarrow> False
      | Some (la, lo) \<Rightarrow> num_le (calculateDistance M refLat refLon la lo) radiusKm)"

text \<open>
  The representative point the specification gives a Polygon: the first coordinate of
  its first ring.
\<close>

definition polygonRepresentative :: "jsval \<Rightarrow> (jsnum \<times> jsnum) option" where
  "polygonRepresentative feature =
     (let geometry = getProp feature ''geometry'' in
      if getProp geometry ''type'' = JStr ''Polygon'' then
        Option.bind (Option.bind (firstElement (getProp geometry ''coordinates'')) firstElement)
          coordinatePair
      else None)"

text \<open>
  The coordinate invariant of the specification: both components finite, latitude in
  [-90, 90], longitude in [-180, 180].
\<close>

fun validCoordinate :: "jsval \<Rightarrow> bool" where
  "validCoordinate (JArr [JNum (Fin lon), JNum (Fin lat)]) =
     (- 90 \<le> lat \<and> lat \<le> 90 \<and> - 180 \<le> lon \<and> lon \<le> 180)"
| "validCoordinate _ = False"

section \<open>Ingestion (\<^verbatim>\<open>loadGeoJSONData\<close>)\<close>

text \<open>
  A row of the \<^verbatim>\<open>projects\<close> query, with the selected columns
  (\<^verbatim>\<open>type\<close> is \<open>ptype\<close> here). \<^verbatim>\<open>JSON.parse\<close> is a parameter
  \<open>parse\<close>: \<open>None\<close> is its \<^verbatim>\<open>SyntaxError\<close>.
\<close>

record project =
  project_id :: jsval
  name :: jsval
  ptype :: jsval
  city :: jsval
  barangay :: jsval
  geom :: jsval
  raw :: jsval

definition digitChar :: "nat \<Rightarrow> char" where
  "digitChar d = char_of (48 + d)"

fun indexKey :: "nat \<Rightarrow> string" where
  "indexKey n = (if n < 10 then [digitChar n] else indexKey (n div 10) @ [digitChar (n mod 10)])"

text \<open>
  The own enumerable properties that \<^verbatim>\<open>{...v}\<close> copies: those of an object, the
  indices of an array or of a string, none of another value. Of a repeated key the first
  entry counts, as in \<open>getProp\<close>.
\<close>

fun ownProps :: "jsval \<Rightarrow> (string \<times> jsval) list" where
  "ownProps (JObj kvs) = AList.clearjunk kvs"
| "ownProps (JArr xs) = map (\<lambda>i. (indexKey i, xs ! i)) [0 ..< length xs]"
| "ownProps (JStr s) = map (\<lambda>i. (indexKey i, JStr [s ! i])) [0 ..< length s]"
| "ownProps _ = []"

definition spreadInto :: "(string \<times> jsval) list \<Rightarrow> jsval \<Rightarrow> (string \<times> jsval) list" where
  "spreadInto base v = foldl (\<lambda>acc (k, x). AList.update k x acc) base (ownProps v)"

text \<open>
  An object lists its keys that are array indices (the decimal numerals below
  \<open>2\<^sup>3\<^sup>2 - 1\<close>, without a leading zero) first, in ascending order, and then its
  other keys in the order of their creation.
\<close>

definition isDigit :: "char \<Rightarrow> bool" where
  "isDigit c = (48 \<le> (of_char c :: nat) \<and> (of_char c :: nat) \<le> 57)"

definition indexValue :: "string \<Rightarrow> nat" where
  "indexValue k = foldl (\<lambda>n c. 10 * n + (of_char c - 48)) 0 k"

definition isArrayIndex :: "string \<Rightarrow> bool" where
  "isArrayIndex k =
     (case k of
        [] \<Rightarrow> False
      | c # cs \<Rightarrow>
          list_all isDigit k \<and> (cs = [] \<or> c \<noteq> CHR ''0'') \<and> indexValue k < 2 ^ 32 - 1)"

definition propertyOrder :: "(string \<times> jsval) list \<Rightarrow> (string \<times> jsval) list" where
  "propertyOrder kvs =
     sort_key (\<lambda>kv. indexValue (fst kv)) (filter (\<lambda>kv. isArrayIndex (fst kv)) kvs)
     @ filter (\<lambda>kv. \<not> isArrayIndex (fst kv)) kvs"

definition makeFeature :: "project \<Rightarrow> jsval \<Rightarrow> jsval" where
  "makeFeature p geometry =
     JObj [(''type'', JStr ''Feature''),
           (''geometry'', geometry),
           (''properties'',
              JObj (propertyOrder
                     (spreadInto
                       [(''project_id'', project_id p),
                        (''name'', name p),
                        (''type'', ptype p),
                        (''city'', city p),
                        (''barangay'', barangay p)]
                       (raw p))))]"

text \<open>The callback of \<^verbatim>\<open>.map\<close>; \<open>JNull\<close> is its \<^verbatim>\<open>return null\<close>.\<close>

definition toFeature :: "(string \<Rightarrow> jsval option) \<Rightarrow> project \<Rightarrow> jsval" where
  "toFeature parse p =
     (case geom p of
        JStr s \<Rightarrow> (case parse s of None \<Rightarrow> JNull | Some geometry \<Rightarrow> makeFeature p geometry)
      | geometry \<Rightarrow> makeFeature p geometry)"

definition geoJsonFeatures :: "(string \<Rightarrow> jsval option) \<Rightarrow> project list \<Rightarrow> jsval list" where
  "geoJsonFeatures parse projects =
     filter (\<lambda>feature. feature \<noteq> JNull)
       (map (toFeature parse) (filter (\<lambda>p. truthy (geom p)) projects))"

text \<open>The geometry that ingestion stores for a row it keeps.\<close>

definition decodedGeometry :: "(string \<Rightarrow> jsval option) \<Rightarrow> project \<Rightarrow> jsval option" where
  "decodedGeometry parse p =
     (if truthy (geom p) then (case geom p of JStr s \<Rightarrow> parse s | g \<Rightarrow> Some g) else None)"

section \<open>Render primitive mapper (\<^verbatim>\<open>GeoJSONLayer\<close>)\<close>

text \<open>
  The component returns React elements; a primitive records the props of one element
  (all but its \<^verbatim>\<open>key\<close>): a \<^verbatim>\<open>Polyline\<close> has its coordinates, stroke colour,
  stroke width and fill colour (absent unless it outlines a polygon), a \<^verbatim>\<open>Marker\<close>
  its coordinate, title and description; the last argument of both is the feature that
  the \<^verbatim>\<open>onPress\<close> handler reports. A \<^verbatim>\<open>null\<close> element is no primitive, and
  a fragment is the list of its children. The screen always passes both style props (a
  colour string and the width 2 or 3), so the defaults of the component are not used.
\<close>

record latLng =
  latitude :: jsval
  longitude :: jsval

datatype primitive =
    Polyline "latLng list" string nat "string option" jsval
  | Marker latLng jsval jsval jsval

fun polylineStroke :: "primitive \<Rightarrow> (string \<times> nat) option" where
  "polylineStroke (Polyline cs strokeColor strokeWidth fillColor source) =
     Some (strokeColor, strokeWidth)"
| "polylineStroke (Marker c title description source) = None"

text \<open>\<^verbatim>\<open>coord && Array.isArray(coord) && coord.length >= 2\<close>\<close>

definition validCoord :: "jsval \<Rightarrow> bool" where
  "validCoord coord =
     (truthy coord \<and> (case coord of JArr c \<Rightarrow> 2 \<le> length c | _ \<Rightarrow> False))"

fun toLatLng :: "jsval \<Rightarrow> latLng" where
  "toLatLng (JArr c) = \<lparr>latitude = idx c 1, longitude = idx c 0\<rparr>"
| "toLatLng _ = \<lparr>latitude = JUndefined, longitude = JUndefined\<rparr>"

definition convertCoordinates :: "jsval list \<Rightarrow> latLng list" where
  "convertCoordinates cs = map toLatLng (filter validCoord cs)"

text \<open>\<^verbatim>\<open>a || b\<close>\<close>

definition jsOr :: "jsval \<Rightarrow> jsval \<Rightarrow> jsval" where
  "jsOr a b = (if truthy a then a else b)"

text \<open>Running a callback over an array; the first exception ends the rendering.\<close>

fun collect :: "('a \<Rightarrow> error + 'b list) \<Rightarrow> 'a list \<Rightarrow> error + 'b list" where
  "collect f [] = Inr []"
| "collect f (x # xs) =
     (case f x of
        Inl e \<Rightarrow> Inl e
      | Inr ps \<Rightarrow> (case collect f xs of Inl e \<Rightarrow> Inl e | Inr qs \<Rightarrow> Inr (ps @ qs)))"

text \<open>
  The callback of the inner \<^verbatim>\<open>map\<close> of the MultiLineString branch.
  \<^verbatim>\<open>lineCoords.filter\<close> is called without a test: on anything but an array it is a
  \<^verbatim>\<open>TypeError\<close>.
\<close>

definition renderLine :: "string \<Rightarrow> nat \<Rightarrow> jsval \<Rightarrow> jsval \<Rightarrow> error + primitive list" where
  "renderLine strokeColor strokeWidth feature lineCoords =
     (case lineCoords of
        JArr vs \<Rightarrow>
          (let coordinates = convertCoordinates vs in
           if length coordinates = 0 then Inr []
           else Inr [Polyline coordinates strokeColor strokeWidth None feature])
      | _ \<Rightarrow> Inl TypeError)"

definition renderFeature :: "string \<Rightarrow> nat \<Rightarrow> jsval \<Rightarrow> error + primitive list" where
  "renderFeature strokeColor strokeWidth feature =
     (let geometry = getProp feature ''geometry'';
          kind = getProp geometry ''type'';
          coords = getProp geometry ''coordinates''
      in
      if \<not> truthy feature then Inr []
      else if \<not> truthy geometry then Inr []
      else if \<not> truthy kind then Inr []
      else if kind = JStr ''LineString'' then
        (case coords of
           JArr cs \<Rightarrow>
             (let coordinates = convertCoordinates cs in
              if length coordinates = 0 then Inr []
              else Inr [Polyline coordinates strokeColor strokeWidth None feature])
         | _ \<Rightarrow> Inr [])
      else if kind = JStr ''MultiLineString'' then
        (case coords of
           JArr ls \<Rightarrow> collect (renderLine strokeColor strokeWidth feature) ls
         | _ \<Rightarrow> Inr [])
      else if kind = JStr ''Point'' then
        (case coords of
           JArr c \<Rightarrow>
             if length c < 2 then Inr []
             else
               (case getPropChecked (getProp feature ''properties'') ''BR_NAME'' of
                  Inl e \<Rightarrow> Inl e
                | Inr brName \<Rightarrow>
                    (let properties = getProp feature ''properties'' in
                     Inr [Marker \<lparr>latitude = idx c 1, longitude = idx c 0\<rparr>
                            (jsOr (jsOr brName (getProp properties ''name''))
                                  (JStr ''Infrastructure''))
                            (jsOr (jsOr (getProp properties ''ROAD_NAME'')
                                        (getProp properties ''description''))
                                  (JStr ''DPWH Infrastructure''))
                            feature]))
         | _ \<Rightarrow> Inr [])
      else if kind = JStr ''Polygon'' then
        (case coords of
           JArr rings \<Rightarrow>
             (case idx rings 0 of
                JArr ring \<Rightarrow>
                  (let coordinates = convertCoordinates ring in
                   if length coordinates = 0 then Inr []
                   else Inr [Polyline coordinates strokeColor strokeWidth
                               (Some (strokeColor @ ''20'')) feature])
              | _ \<Rightarrow> Inr [])
         | _ \<Rightarrow> Inr [])
      else Inr [])"

text \<open>
  \<^verbatim>\<open>data.features.map\<close> is called after a truthiness test only, so a truthy value
  that is no array is a \<^verbatim>\<open>TypeError\<close>.
\<close>

definition GeoJSONLayer :: "jsval \<Rightarrow> string \<Rightarrow> nat \<Rightarrow> error + primitive list" where
  "GeoJSONLayer data strokeColor strokeWidth =
     (if \<not> truthy data then Inr []
      else if \<not> truthy (getProp data ''features'') then Inr []
      else
        (case getProp data ''features'' of
           JArr fs \<Rightarrow> collect (renderFeature strokeColor strokeWidth) fs
         | _ \<Rightarrow> Inl TypeError))"

subsection \<open>Styling by collection index (the map screen)\<close>

definition strokeColorFor :: "nat \<Rightarrow> string" where
  "strokeColorFor index =
     (if index = 0 then ''#FF6B6B''
      else if index = 1 then ''#4ECDC4''
      else if index = 2 then ''#9B59B6''
      else if index = 3 then ''#E67E22''
      else if index = 4 then ''#2ECC71''
      else ''#F1C40F'')"

definition strokeWidthFor :: "nat \<Rightarrow> nat" where
  "strokeWidthFor index = (if index = 5 then 3 else 2)"

text \<open>The layer that the screen renders for the collection at \<open>index\<close>.\<close>

definition renderCollection :: "nat \<Rightarrow> jsval \<Rightarrow> error + primitive list" where
  "renderCollection index data = GeoJSONLayer data (strokeColorFor index) (strokeWidthFor index)"

text \<open>
  The palette of the specification, to compare with: the six colours of the screen, in
  order, taken cyclically.
\<close>

definition palette :: "string list" where
  "palette = [''#FF6B6B'', ''#4ECDC4'', ''#9B59B6'', ''#E67E22'', ''#2ECC71'', ''#F1C40F'']"

definition cyclicColor :: "nat \<Rightarrow> string" where
  "cyclicColor index = palette ! (index mod length palette)"

section \<open>Auxiliary definitions for the proofs\<close>

subsection \<open>Sample data\<close>

definition lonLat :: "real \<Rightarrow> real \<Rightarrow> jsval" where
  "lonLat lon lat = JArr [JNum (Fin lon), JNum (Fin lat)]"

definition geoFeature :: "string \<Rightarrow> jsval \<Rightarrow> jsval" where
  "geoFeature kind coordinates =
     JObj [(''type'', JStr ''Feature''),
           (''geometry'', JObj [(''type'', JStr kind), (''coordinates'', coordinates)]),
           (''properties'', JObj [])]"

definition featureCollection :: "jsval list \<Rightarrow> jsval" where
  "featureCollection fs = JObj [(''type'', JStr ''FeatureCollection''), (''features'', JArr fs)]"

definition sampleState :: mapState where
  "sampleState =
     \<lparr>location = JNull, region = JNull,
      geoJsonData = [featureCollection [geoFeature ''Point'' (lonLat 0 0),
                       geoFeature ''LineString'' (JArr [lonLat 180 0, lonLat 0 0])]],
      allGeoJsonData = [featureCollection [geoFeature ''Point'' (lonLat 0 0),
                          geoFeature ''LineString'' (JArr [lonLat 180 0, lonLat 0 0])]]\<rparr>"

definition samplePolygon :: jsval where
  "samplePolygon =
     geoFeature ''Polygon'' (JArr [JArr [lonLat 0 0, lonLat 1 0, lonLat 1 1, lonLat 0 0]])"

definition unlabelledDataset :: jsval where
  "unlabelledDataset = JObj [(''name'', JStr ''highways-layer-0''), (''features'', JNull)]"

definition pointGeometry :: "jsval \<Rightarrow> jsval" where
  "pointGeometry c = JObj [(''type'', JStr ''Point''), (''coordinates'', c)]"

definition sampleProject :: "jsval \<Rightarrow> project" where
  "sampleProject g =
     \<lparr>project_id = JNum (Fin 1), name = JStr ''Bridge'', ptype = JStr ''bridge'',
      city = JNull, barangay = JNull, geom = g, raw = JNull\<rparr>"

definition sampleParse :: "string \<Rightarrow> jsval option" where
  "sampleParse s =
     (if s = ''{}'' then Some (JObj [])
      else if s = ''null'' then Some JNull
      else None)"

subsection \<open>The run-time test on the extracted pair\<close>

text \<open>
  \<^verbatim>\<open>typeof featureLat !== 'number' || ... || isNaN(featureLon)\<close> applied to the result of
  the extraction.
\<close>

definition checkedNumbers :: "(jsval \<times> jsval) option \<Rightarrow> (jsnum \<times> jsnum) option" where
  "checkedNumbers r =
     (case r of
        None \<Rightarrow> None
      | Some (la, lo) \<Rightarrow>
          (case number_of la of
             None \<Rightarrow> None
           | Some a \<Rightarrow> (case number_of lo of None \<Rightarrow> None | Some b \<Rightarrow> Some (a, b))))"

subsection \<open>The stroke of a primitive\<close>

text \<open>A polyline drawn with the given colour and width, or a primitive without stroke.\<close>

definition strokeOk :: "string \<Rightarrow> nat \<Rightarrow> primitive \<Rightarrow> bool" where
  "strokeOk c w p = (polylineStroke p = None \<or> polylineStroke p = Some (c, w))"

subsection \<open>The haversine term\<close>

text \<open>The value of \<^verbatim>\<open>a\<close> in \<^verbatim>\<open>calculateDistance\<close>, as the platform computes it.\<close>

definition haversineTerm ::
  "platform \<Rightarrow> jsnum \<Rightarrow> jsnum \<Rightarrow> jsnum \<Rightarrow> jsnum \<Rightarrow> jsnum" where
  "haversineTerm M lat1 lon1 lat2 lon2 =
     (let dLat = num_div M (num_mul M (num_sub M lat2 lat1) (Fin (math_PI M))) (Fin 180);
          dLon = num_div M (num_mul M (num_sub M lon2 lon1) (Fin (math_PI M))) (Fin 180)
      in num_add M
           (num_mul M (num_sin M (num_div M dLat (Fin 2)))
                      (num_sin M (num_div M dLat (Fin 2))))
           (num_mul M
             (num_mul M
               (num_mul M
                 (num_cos M (num_div M (num_mul M lat1 (Fin (math_PI M))) (Fin 180)))
                 (num_cos M (num_div M (num_mul M lat2 (Fin (math_PI M))) (Fin 180))))
               (num_sin M (num_div M dLon (Fin 2))))
             (num_sin M (num_div M dLon (Fin 2)))))"

text \<open>The same term in exact real arithmetic.\<close>

definition haversine_a :: "real \<Rightarrow> real \<Rightarrow> real \<Rightarrow> real \<Rightarrow> real" where
  "haversine_a la1 lo1 la2 lo2 =
     sin ((la2 - la1) * pi / 180 / 2) * sin ((la2 - la1) * pi / 180 / 2)
     + cos (la1 * pi / 180) * cos (la2 * pi / 180)
       * sin ((lo2 - lo1) * pi / 180 / 2) * sin ((lo2 - lo1) * pi / 180 / 2)"

subsection \<open>Two platforms for the sample evaluations\<close>

text \<open>
  The platform that does not round: every operation returns the exact real result, and
  \<^verbatim>\<open>Math.atan2\<close> is the mathematical function with the values that ECMAScript
  gives it at the infinities. The sample evaluations are made on it.
\<close>

definition atan2_real :: "real \<Rightarrow> real \<Rightarrow> real" where
  "atan2_real y x =
     (if 0 < x then arctan (y / x)
      else if x < 0 then (if 0 \<le> y then arctan (y / x) + pi else arctan (y / x) - pi)
      else if 0 < y then pi / 2
      else if y < 0 then - (pi / 2)
      else 0)"

fun exact_atan2 :: "jsnum \<Rightarrow> jsnum \<Rightarrow> jsnum" where
  "exact_atan2 NaN _ = NaN"
| "exact_atan2 _ NaN = NaN"
| "exact_atan2 (Fin y) (Fin x) = Fin (atan2_real y x)"
| "exact_atan2 (Fin y) PInf = Fin 0"
| "exact_atan2 (Fin y) NInf = (if 0 \<le> y then Fin pi else Fin (- pi))"
| "exact_atan2 PInf (Fin x) = Fin (pi / 2)"
| "exact_atan2 NInf (Fin x) = Fin (- (pi / 2))"
| "exact_atan2 PInf PInf = Fin (pi / 4)"
| "exact_atan2 PInf NInf = Fin (3 * pi / 4)"
| "exact_atan2 NInf PInf = Fin (- (pi / 4))"
| "exact_atan2 NInf NInf = Fin (- (3 * pi / 4))"

definition exactPlatform :: platform where
  "exactPlatform =
     \<lparr>round_double = Fin, math_sin = sin, math_cos = cos,
      math_atan2 = exact_atan2, math_PI = pi\<rparr>"

text \<open>
  The exact platform, but with a sine that errs upward by \<open>2\<^sup>-\<^sup>5\<^sup>3\<close>, half a unit
  in the last place of a double near 1.
\<close>

definition ulpSinePlatform :: platform where
  "ulpSinePlatform = exactPlatform\<lparr>math_sin := (\<lambda>x. sin x + 1 / 2 ^ 53)\<rparr>"

section \<open>Properties of the distance calculator\<close>

subsection \<open>On every platform\<close>

lemma num_sub_Fin [simp]: "num_sub M (Fin a) (Fin b) = round_double M (a - b)"
  by (simp add: num_sub_def)

lemma num_atan2_NaN_right [simp]: "num_atan2 M y NaN = NaN"
  by (cases y) simp_all

lemma num_mul_NaN_right [simp]: "num_mul M x NaN = NaN"
  by (cases x) simp_all

lemma calculateDistance_term:
  "calculateDistance M lat1 lon1 lat2 lon2 =
     num_mul M (Fin 6371) (num_mul M (Fin 2)
       (num_atan2 M (num_sqrt M (haversineTerm M lat1 lon1 lat2 lon2))
                    (num_sqrt M (num_sub M (Fin 1) (haversineTerm M lat1 lon1 lat2 lon2)))))"
  by (simp add: calculateDistance_def haversineTerm_def Let_def)

text \<open>
  The distance from a point to itself is 0 on every platform that is exact where IEEE 754
  and ECMAScript are: 0 and 1 are doubles, \<^verbatim>\<open>Math.sin(0)\<close> is 0 and
  \<^verbatim>\<open>Math.atan2(0, 1)\<close> is 0 (and the product of the two cosines does not overflow).
\<close>

lemma calculateDistance_self_on_platform:
  assumes "round_double M 0 = Fin 0" and "round_double M 1 = Fin 1"
    and "math_sin M 0 = 0" and "math_atan2 M (Fin 0) (Fin 1) = Fin 0"
    and "num_mul M (num_cos M (num_div M (num_mul M (Fin la) (Fin (math_PI M))) (Fin 180)))
                   (num_cos M (num_div M (num_mul M (Fin la) (Fin (math_PI M))) (Fin 180)))
         = Fin w"
  shows "calculateDistance M (Fin la) (Fin lo) (Fin la) (Fin lo) = Fin 0"
  using assms by (simp add: calculateDistance_def Let_def)

text \<open>
  Claim C4 fails on the code where rounding lifts the haversine term above 1: then
  \<^verbatim>\<open>1 - a\<close> is negative, its square root is NaN, the distance is NaN in whatever
  order the two points are given, and \<^verbatim>\<open>==\<close> is false of NaN. On doubles this
  happens at valid coordinates near antipodes, as from (8, 0) to (-8, 180), where
  \<^verbatim>\<open>a\<close> is 1.0000000000000002.
\<close>

theorem calculateDistance_nan_when_term_exceeds_one:
  assumes "num_sub M (Fin 1) (haversineTerm M lat1 lon1 lat2 lon2) = Fin d" and "d < 0"
  shows "calculateDistance M lat1 lon1 lat2 lon2 = NaN
       \<and> \<not> num_eq (calculateDistance M lat1 lon1 lat2 lon2)
                   (calculateDistance M lat2 lon2 lat1 lon1)"
proof -
  have "num_sqrt M (num_sub M (Fin 1) (haversineTerm M lat1 lon1 lat2 lon2)) = NaN"
    using assms by simp
  then have "calculateDistance M lat1 lon1 lat2 lon2 = NaN"
    by (simp add: calculateDistance_term)
  then show ?thesis by simp
qed

subsection \<open>On the exact platform\<close>

lemma exactPlatform_simps [simp]:
  "round_double exactPlatform x = Fin x"
  "math_sin exactPlatform = sin"
  "math_cos exactPlatform = cos"
  "math_atan2 exactPlatform = exact_atan2"
  "math_PI exactPlatform = pi"
  by (simp_all add: exactPlatform_def)

lemma ulpSinePlatform_simps [simp]:
  "round_double ulpSinePlatform x = Fin x"
  "math_sin ulpSinePlatform x = sin x + 1 / 2 ^ 53"
  "math_cos ulpSinePlatform = cos"
  "math_atan2 ulpSinePlatform = exact_atan2"
  "math_PI ulpSinePlatform = pi"
  by (simp_all add: ulpSinePlatform_def exactPlatform_def)

lemma haversineTerm_exact:
  "haversineTerm exactPlatform (Fin la1) (Fin lo1) (Fin la2) (Fin lo2)
     = Fin (haversine_a la1 lo1 la2 lo2)"
  by (simp add: haversineTerm_def haversine_a_def Let_def)

lemma calculateDistance_Fin:
  "calculateDistance exactPlatform (Fin la1) (Fin lo1) (Fin la2) (Fin lo2) =
     num_mul exactPlatform (Fin 6371) (num_mul exactPlatform (Fin 2)
       (num_atan2 exactPlatform
          (num_sqrt exactPlatform (Fin (haversine_a la1 lo1 la2 lo2)))
          (num_sqrt exactPlatform (Fin (1 - haversine_a la1 lo1 la2 lo2)))))"
  by (simp add: calculateDistance_term haversineTerm_exact)

lemma hav_bounds:
  fixes x y d :: real
  assumes "0 \<le> cos x" "0 \<le> cos y"
  shows "0 \<le> sin ((y - x)/2) * sin ((y - x)/2) + cos x * cos y * sin d * sin d
       \<and> sin ((y - x)/2) * sin ((y - x)/2) + cos x * cos y * sin d * sin d \<le> 1"
proof -
  define S where "S = sin d * sin d"
  define C where "C = cos x * cos y"
  define H where "H = sin ((y - x)/2) * sin ((y - x)/2)"
  have S0: "0 \<le> S" by (simp add: S_def)
  have C0: "0 \<le> C" using assms by (simp add: C_def)
  have H0: "0 \<le> H" by (simp add: H_def)
  have S1: "S \<le> 1"
    using sin_squared_eq [of d] zero_le_power2 [of "cos d"] by (simp add: S_def power2_eq_square)
  have CS0: "0 \<le> C * S" using C0 S0 by (rule mult_nonneg_nonneg)
  have "C * S \<le> C * 1" using S1 C0 by (rule mult_left_mono)
  hence CS1: "C * S \<le> C" by simp
  define z where "z = (y - x) / 2"
  have yx: "y - x = 2 * z" by (simp add: z_def)
  have "cos (2 * z) = 1 - 2 * (sin z * sin z)"
    using sin_cos_squared_add [of z] by (simp add: cos_double power2_eq_square)
  hence h: "H = (1 - cos (y - x)) / 2" unfolding yx by (simp add: H_def z_def)
  have "H + C = (1 + cos (x + y)) / 2"
    unfolding h C_def by (simp add: cos_diff cos_add field_simps)
  also have "\<dots> \<le> (1 + 1) / 2"
    by (intro divide_right_mono add_left_mono cos_le_one) simp
  finally have HC: "H + C \<le> 1" by simp
  have eq: "sin ((y - x)/2) * sin ((y - x)/2) + cos x * cos y * sin d * sin d = H + C * S"
    by (simp add: H_def C_def S_def mult.assoc)
  show ?thesis unfolding eq using H0 CS0 CS1 HC by linarith
qed

lemma atan2_nonneg: "0 \<le> y \<Longrightarrow> 0 \<le> x \<Longrightarrow> 0 \<le> atan2_real y x"
  by (auto simp: atan2_real_def not_less intro!: divide_nonneg_nonneg)

lemma cos_deg_nonneg:
  assumes "- 90 \<le> la" "la \<le> (90::real)"
  shows "0 \<le> cos (la * pi / 180)"
proof (rule cos_ge_zero)
  have "pi * (- 90) \<le> pi * la" using assms(1) pi_ge_zero by (rule mult_left_mono)
  thus "- (pi / 2) \<le> la * pi / 180" by (simp add: mult.commute)
  have "pi * la \<le> pi * 90" using assms(2) pi_ge_zero by (rule mult_left_mono)
  thus "la * pi / 180 \<le> pi / 2" by (simp add: mult.commute)
qed

lemma haversine_a_sym: "haversine_a la2 lo2 la1 lo1 = haversine_a la1 lo1 la2 lo2"
proof -
  have n1: "(la1 - la2) * pi / 180 / 2 = - ((la2 - la1) * pi / 180 / 2)"
    by (simp add: left_diff_distrib diff_divide_distrib)
  have n2: "(lo1 - lo2) * pi / 180 / 2 = - ((lo2 - lo1) * pi / 180 / 2)"
    by (simp add: left_diff_distrib diff_divide_distrib)
  show ?thesis unfolding haversine_a_def n1 n2 by (simp add: mult.commute)
qed

lemma haversine_a_self: "haversine_a la lo la lo = 0"
  by (simp add: haversine_a_def)

lemma haversine_a_range:
  assumes "- 90 \<le> la1" "la1 \<le> 90" "- 90 \<le> la2" "la2 \<le> 90"
  shows "0 \<le> haversine_a la1 lo1 la2 lo2 \<and> haversine_a la1 lo1 la2 lo2 \<le> 1"
proof -
  have e: "(la2 - la1) * pi / 180 / 2 = (la2 * pi / 180 - la1 * pi / 180) / 2"
    by (simp add: left_diff_distrib diff_divide_distrib)
  show ?thesis
    unfolding haversine_a_def e
    by (rule hav_bounds [OF cos_deg_nonneg [OF assms(1,2)] cos_deg_nonneg [OF assms(3,4)]])
qed

lemma calculateDistance_finite:
  assumes "- 90 \<le> la1" "la1 \<le> 90" "- 90 \<le> la2" "la2 \<le> 90"
  shows "calculateDistance exactPlatform (Fin la1) (Fin lo1) (Fin la2) (Fin lo2) =
     Fin (6371 * (2 * atan2_real (sqrt (haversine_a la1 lo1 la2 lo2))
                                  (sqrt (1 - haversine_a la1 lo1 la2 lo2))))"
  using haversine_a_range [OF assms, of lo1 lo2] by (simp add: calculateDistance_Fin)

lemma calculateDistance_self:
  "calculateDistance exactPlatform (Fin la) (Fin lo) (Fin la) (Fin lo) = Fin 0"
  by (simp add: calculateDistance_Fin haversine_a_self atan2_real_def)

text \<open>
  Without rounding the formula is what the specification asks of a distance: for
  latitudes between -90 and 90 it is symmetric, and 0 from a point to itself.
\<close>

lemma exact_distance_symmetric_zero:
  assumes "- 90 \<le> la1" "la1 \<le> 90" "- 90 \<le> la2" "la2 \<le> 90"
  shows "num_eq (calculateDistance exactPlatform (Fin la1) (Fin lo1) (Fin la2) (Fin lo2))
                (calculateDistance exactPlatform (Fin la2) (Fin lo2) (Fin la1) (Fin lo1))
       \<and> num_eq (calculateDistance exactPlatform (Fin la1) (Fin lo1) (Fin la1) (Fin lo1))
                (Fin 0)"
  by (simp add: calculateDistance_finite assms haversine_a_sym [of la2 lo2 la1 lo1]
        calculateDistance_self)

lemma atan2_sqrt_arcsin:
  assumes "0 \<le> a" "a \<le> 1"
  shows "atan2_real (sqrt a) (sqrt (1 - a)) = arcsin (sqrt a)"
proof (cases "a = 1")
  case True
  then show ?thesis by (simp add: atan2_real_def)
next
  case False
  then have lt: "a < 1" using assms by simp
  then have pos: "0 < sqrt (1 - a)" by simp
  have x1: "sqrt a < 1" using lt assms by (simp add: real_sqrt_lt_1_iff)
  have x0: "- 1 < sqrt a" using assms by (meson less_le_trans neg_less_0_iff_less real_sqrt_ge_zero zero_less_one)
  have sq: "(sqrt a)\<^sup>2 = a" using assms by simp
  have "arcsin (sqrt a) = arctan (sqrt a / sqrt (1 - (sqrt a)\<^sup>2))"
    using x0 x1 by (rule arcsin_arctan)
  then show ?thesis using pos by (simp add: atan2_real_def sq)
qed

text \<open>
  And it is the haversine distance of the specification, with the mean Earth radius
  6371 km: twice the radius times the arc sine of the square root of the haversine term.
\<close>

lemma exact_distance_is_haversine:
  assumes "- 90 \<le> la1" "la1 \<le> 90" "- 90 \<le> la2" "la2 \<le> 90"
  shows "calculateDistance exactPlatform (Fin la1) (Fin lo1) (Fin la2) (Fin lo2) =
     Fin (2 * 6371 * arcsin (sqrt (haversine_a la1 lo1 la2 lo2)))"
  using haversine_a_range [OF assms, of lo1 lo2]
  by (simp add: calculateDistance_finite [OF assms] atan2_sqrt_arcsin)

lemma distance_origin_antipode:
  "calculateDistance exactPlatform (Fin 0) (Fin 0) (Fin 0) (Fin 180) = Fin (6371 * pi)"
  by (simp add: calculateDistance_def Let_def atan2_real_def)

subsection \<open>A platform on which the term exceeds 1\<close>

lemma term_ulp:
  "haversineTerm ulpSinePlatform (Fin 0) (Fin 0) (Fin 0) (Fin 180)
     = Fin (1 / 2 ^ 53 * (1 / 2 ^ 53) + (1 + 1 / 2 ^ 53) * (1 + 1 / 2 ^ 53))"
  by (simp add: haversineTerm_def Let_def)

theorem calculateDistance_nan_when_term_exceeds_one_witness:
  "num_sub ulpSinePlatform (Fin 1)
     (haversineTerm ulpSinePlatform (Fin 0) (Fin 0) (Fin 0) (Fin 180))
     = Fin (1 - (1 / 2 ^ 53 * (1 / 2 ^ 53) + (1 + 1 / 2 ^ 53) * (1 + 1 / 2 ^ 53)))
   \<and> 1 - (1 / 2 ^ 53 * (1 / 2 ^ 53) + (1 + 1 / 2 ^ 53) * (1 + 1 / 2 ^ 53)) < (0::real)
   \<and> calculateDistance ulpSinePlatform (Fin 0) (Fin 0) (Fin 0) (Fin 180) = NaN
   \<and> num_eq (calculateDistance ulpSinePlatform (Fin 0) (Fin 0) (Fin 0) (Fin 180))
             (calculateDistance ulpSinePlatform (Fin 0) (Fin 180) (Fin 0) (Fin 0)) = False"
proof -
  have h: "num_sub ulpSinePlatform (Fin 1)
     (haversineTerm ulpSinePlatform (Fin 0) (Fin 0) (Fin 0) (Fin 180))
     = Fin (1 - (1 / 2 ^ 53 * (1 / 2 ^ 53) + (1 + 1 / 2 ^ 53) * (1 + 1 / 2 ^ 53)))"
    by (simp only: term_ulp num_sub_Fin ulpSinePlatform_simps)
  have neg: "1 - (1 / 2 ^ 53 * (1 / 2 ^ 53) + (1 + 1 / 2 ^ 53) * (1 + 1 / 2 ^ 53)) < (0::real)"
    by simp
  show ?thesis
    using h neg calculateDistance_nan_when_term_exceeds_one [OF h neg] by simp
qed

section \<open>Properties of the proximity filter\<close>

lemma idx_simps [simp]:
  "idx (x # xs) 0 = x" "idx (x # y # xs) 1 = y" "idx (x # y # xs) (Suc 0) = y"
  "idx [] n = JUndefined"
  by (simp_all add: idx_def)

lemma getProp_falsy: "\<not> truthy v \<Longrightarrow> getProp v k = JUndefined"
  by (cases v) simp_all

lemma pair_of_point:
  "checkedNumbers (case cs of JArr xs \<Rightarrow> if length xs < 2 then None else Some (idx xs 1, idx xs 0) | _ \<Rightarrow> None)
   = coordinatePair cs"
proof (cases cs)
  case (JArr xs)
  show ?thesis
  proof (cases xs)
    case Nil
    with JArr show ?thesis by (simp add: checkedNumbers_def)
  next
    case (Cons x ys)
    show ?thesis
    proof (cases ys)
      case Nil
      with JArr Cons show ?thesis by (simp add: checkedNumbers_def)
    next
      case (Cons y zs)
      with JArr \<open>xs = x # ys\<close> show ?thesis
        by (simp add: checkedNumbers_def split: option.splits)
    qed
  qed
qed (simp_all add: checkedNumbers_def)

lemma pair_of_first:
  "checkedNumbers (case cs of JArr xs \<Rightarrow> if length xs = 0 then None
       else (case idx xs 0 of JArr p \<Rightarrow> if length p < 2 then None else Some (idx p 1, idx p 0) | _ \<Rightarrow> None)
     | _ \<Rightarrow> None)
   = Option.bind (firstElement cs) coordinatePair"
proof (cases cs)
  case (JArr xs)
  show ?thesis
  proof (cases xs)
    case Nil
    with JArr show ?thesis by (simp add: checkedNumbers_def)
  next
    case (Cons x ys)
    with JArr show ?thesis using pair_of_point [of x] by simp
  qed
qed (simp_all add: checkedNumbers_def)

lemma pair_of_first_first:
  "checkedNumbers (case cs of JArr xs \<Rightarrow> if length xs = 0 then None
       else (case idx xs 0 of JArr l \<Rightarrow> if length l = 0 then None else
          (case idx l 0 of JArr p \<Rightarrow> if length p < 2 then None else Some (idx p 1, idx p 0) | _ \<Rightarrow> None)
          | _ \<Rightarrow> None)
     | _ \<Rightarrow> None)
   = Option.bind (Option.bind (firstElement cs) firstElement) coordinatePair"
proof (cases cs)
  case (JArr xs)
  show ?thesis
  proof (cases xs)
    case Nil
    with JArr show ?thesis by (simp add: checkedNumbers_def)
  next
    case (Cons x ys)
    with JArr show ?thesis using pair_of_first [of x] by simp
  qed
qed (simp_all add: checkedNumbers_def)

lemma extract_representative:
  "checkedNumbers (extractLatLon (getProp f ''geometry'')) = representativePoint f"
  unfolding extractLatLon_def representativePoint_def Let_def
  using pair_of_point pair_of_first pair_of_first_first
  by (simp add: checkedNumbers_def)

lemma firstElement_falsy: "\<not> truthy v \<Longrightarrow> firstElement v = None"
  by (cases v) simp_all

lemma coordinatePair_falsy: "\<not> truthy v \<Longrightarrow> coordinatePair v = None"
  by (cases v) simp_all

lemma representative_falsy:
  assumes "\<not> truthy f \<or> \<not> truthy (getProp f ''geometry'')
           \<or> \<not> truthy (getProp (getProp f ''geometry'') ''coordinates'')"
  shows "representativePoint f = None"
proof -
  consider "\<not> truthy f" | "\<not> truthy (getProp f ''geometry'')"
    | "\<not> truthy (getProp (getProp f ''geometry'') ''coordinates'')"
    using assms by blast
  then show ?thesis
  proof cases
    case 1
    then show ?thesis by (simp add: representativePoint_def getProp_falsy)
  next
    case 2
    then show ?thesis by (simp add: representativePoint_def getProp_falsy)
  next
    case 3
    then show ?thesis
      by (simp add: representativePoint_def Let_def firstElement_falsy coordinatePair_falsy)
  qed
qed

lemma isNearby_withinRadius: "isNearby M lat lon r f = withinRadius M lat lon r f"
proof (cases "\<not> truthy f \<or> \<not> truthy (getProp f ''geometry'')
           \<or> \<not> truthy (getProp (getProp f ''geometry'') ''coordinates'')")
  case True
  then have "isNearby M lat lon r f = False" by (auto simp: isNearby_def)
  moreover have "withinRadius M lat lon r f = False"
    using representative_falsy [OF True] by (simp add: withinRadius_def)
  ultimately show ?thesis by simp
next
  case False
  then have "isNearby M lat lon r f =
      (case checkedNumbers (extractLatLon (getProp f ''geometry'')) of
         None \<Rightarrow> False
       | Some (la, lo) \<Rightarrow> num_le (calculateDistance M lat lon la lo) r)"
    by (simp add: isNearby_def checkedNumbers_def split: option.splits)
  then show ?thesis by (simp add: extract_representative withinRadius_def)
qed

lemma getProp_update:
  "getProp (JObj (AList.update k v kvs)) k = v"
  by (simp add: update_conv')

lemma featuresOf_filterDataset:
  "featuresOf (filterDataset M lat lon r d) = filter (isNearby M lat lon r) (featuresOf d)"
proof (cases "\<exists>fs. getProp d ''features'' = JArr fs")
  case True
  then obtain fs where fs: "getProp d ''features'' = JArr fs" by blast
  then obtain kvs where d: "d = JObj kvs" by (cases d) simp_all
  show ?thesis using fs unfolding d
    by (simp add: filterDataset_def featuresOf_def getProp_update del: getProp.simps)
next
  case False
  then have "featuresOf d = []" by (auto simp: featuresOf_def split: jsval.splits)
  moreover have "filterDataset M lat lon r d = emptyCollection"
    using False by (auto simp: filterDataset_def split: jsval.splits)
  ultimately show ?thesis by (simp add: featuresOf_def emptyCollection_def)
qed

subsection \<open>Sample evaluations\<close>

text \<open>The samples are evaluated on the exact platform.\<close>

lemma sample_getProp [simp]:
  "getProp (geoFeature kind cs) ''geometry'' = JObj [(''type'', JStr kind), (''coordinates'', cs)]"
  "getProp (JObj [(''type'', JStr kind), (''coordinates'', cs)]) ''type'' = JStr kind"
  "getProp (JObj [(''type'', JStr kind), (''coordinates'', cs)]) ''coordinates'' = cs"
  "featuresOf (featureCollection fs) = fs"
  by (simp_all add: geoFeature_def featuresOf_def featureCollection_def)

lemma withinRadius_samples:
  "withinRadius exactPlatform (Fin 0) (Fin 0) r (geoFeature ''Point'' (lonLat 0 0)) = num_le (Fin 0) r"
  "withinRadius exactPlatform (Fin 0) (Fin 0) r (geoFeature ''LineString'' (JArr [lonLat 180 0, lonLat 0 0]))
     = num_le (Fin (6371 * pi)) r"
  "withinRadius exactPlatform (Fin 0) (Fin 0) r (geoFeature ''MultiLineString'' (JArr [JArr [lonLat 0 0], JArr []]))
     = num_le (Fin 0) r"
  "withinRadius exactPlatform (Fin 0) (Fin 0) r (geoFeature ''Polygon'' (JArr [JArr [lonLat 0 0]])) = False"
  by (simp_all add: withinRadius_def representativePoint_def lonLat_def
        calculateDistance_self distance_origin_antipode)

subsection \<open>Retention is the radius test on the representative point\<close>



subsection \<open>Polygons\<close>

lemma polygon_no_representative:
  assumes "getProp (getProp feature ''geometry'') ''type'' = JStr ''Polygon''"
  shows "representativePoint feature = None"
  using assms by (simp add: representativePoint_def)

text \<open>
  Claim C3, as the code has it. The filter has no Polygon branch: a Polygon feature has no
  representative point and is never kept, whatever its coordinates, the reference and the
  radius.
\<close>

theorem polygon_excluded_from_nearby:
  assumes "getProp (getProp feature ''geometry'') ''type'' = JStr ''Polygon''"
  shows "\<not> isNearby M refLat refLon radiusKm feature
       \<and> feature \<notin> set (concat (map featuresOf
            (filterNearbyFeatures M (JArr data) refLat refLon radiusKm)))"
proof -
  have no: "\<not> isNearby M refLat refLon radiusKm feature"
    using polygon_no_representative [OF assms]
    by (simp add: isNearby_withinRadius withinRadius_def)
  then show ?thesis
    by (auto simp: filterNearbyFeatures_def featuresOf_filterDataset)
qed

theorem polygon_excluded_from_nearby_witness:
  "getProp (getProp samplePolygon ''geometry'') ''type'' = JStr ''Polygon''
   \<and> \<not> isNearby exactPlatform (Fin 0) (Fin 0) (Fin 10) samplePolygon
   \<and> samplePolygon \<notin> set (concat (map featuresOf
        (filterNearbyFeatures exactPlatform (JArr [featureCollection [samplePolygon]])
           (Fin 0) (Fin 0) (Fin 10))))"
proof -
  have h: "getProp (getProp samplePolygon ''geometry'') ''type'' = JStr ''Polygon''"
    by (simp add: samplePolygon_def)
  show ?thesis
    using h polygon_excluded_from_nearby [OF h, of exactPlatform "Fin 0" "Fin 0" "Fin 10"
        "[featureCollection [samplePolygon]]"]
    by simp
qed

text \<open>
  Claim C3 as stated fails: the first coordinate of the outer ring of the sample polygon
  is the reference itself (distance 0, radius 10), and the polygon is dropped (on every
  platform, by the theorem above).
\<close>

theorem polygon_representative_counterexample:
  "polygonRepresentative samplePolygon = Some (Fin 0, Fin 0)
   \<and> num_le (calculateDistance exactPlatform (Fin 0) (Fin 0) (Fin 0) (Fin 0)) (Fin 10)
   \<and> map featuresOf
       (filterNearbyFeatures exactPlatform (JArr [featureCollection [samplePolygon]])
          (Fin 0) (Fin 0) (Fin 10)) = [[]]"
proof -
  have "withinRadius exactPlatform (Fin 0) (Fin 0) (Fin 10) samplePolygon = False"
    by (simp add: withinRadius_def representativePoint_def samplePolygon_def)
  then have "isNearby exactPlatform (Fin 0) (Fin 0) (Fin 10) samplePolygon = False"
    by (simp add: isNearby_withinRadius)
  then show ?thesis
    by (simp add: polygonRepresentative_def samplePolygon_def lonLat_def
          calculateDistance_self filterNearbyFeatures_def featuresOf_filterDataset)
qed

subsection \<open>The nearby view is part of the complete view\<close>

lemma subseq_filterDataset:
  "subseq (featuresOf (filterDataset M la lo r d)) (featuresOf d)"
  by (simp add: featuresOf_filterDataset)

lemma filter_output_subseq:
  "list_all2 (\<lambda>shown loaded. subseq (featuresOf shown) (featuresOf loaded))
     (filterNearbyFeatures M (JArr data) la lo r) data"
  by (simp add: filterNearbyFeatures_def list_all2_map1 list_all2_same subseq_filterDataset)

lemma filter_output_within:
  "viewWithin (filterNearbyFeatures M (JArr data) la lo r) data"
  by (auto simp: viewWithin_def filterNearbyFeatures_def featuresOf_filterDataset)

lemma updateNearbyFeatures_cases:
  "updateNearbyFeatures M st userLat userLon = st
   \<or> (\<exists>la lo. allGeoJsonData st \<noteq> [] \<and> number_of userLat = Some la \<and> number_of userLon = Some lo
        \<and> updateNearbyFeatures M st userLat userLon =
            st\<lparr>geoJsonData := filterNearbyFeatures M (JArr (allGeoJsonData st)) la lo (Fin 10)\<rparr>)"
  by (auto simp: updateNearbyFeatures_def split: option.splits)

text \<open>
  Claim C2. The output of the filter has one collection per input collection, in the
  same order, and the features of each are a subsequence of the features of its input
  collection (features are compared as values; \<^verbatim>\<open>Array.prototype.filter\<close> returns
  the very elements). \<open>updateNearbyFeatures\<close> keeps the nearby view inside the complete
  view, and when it accepts the reference the nearby view is the filtered complete view.
\<close>

theorem nearby_view_within_complete_view:
  "list_all2 (\<lambda>shown loaded. subseq (featuresOf shown) (featuresOf loaded))
     (filterNearbyFeatures M (JArr data) refLat refLon radiusKm) data
   \<and> (viewWithin (geoJsonData st) (allGeoJsonData st) \<longrightarrow>
        viewWithin (geoJsonData (updateNearbyFeatures M st userLat userLon))
                   (allGeoJsonData (updateNearbyFeatures M st userLat userLon)))
   \<and> (allGeoJsonData st \<noteq> [] \<and> number_of userLat \<noteq> None \<and> number_of userLon \<noteq> None \<longrightarrow>
        list_all2 (\<lambda>shown loaded. subseq (featuresOf shown) (featuresOf loaded))
          (geoJsonData (updateNearbyFeatures M st userLat userLon))
          (allGeoJsonData (updateNearbyFeatures M st userLat userLon)))"
proof (intro conjI impI)
  show "list_all2 (\<lambda>shown loaded. subseq (featuresOf shown) (featuresOf loaded))
     (filterNearbyFeatures M (JArr data) refLat refLon radiusKm) data"
    by (rule filter_output_subseq)
next
  assume "viewWithin (geoJsonData st) (allGeoJsonData st)"
  then show "viewWithin (geoJsonData (updateNearbyFeatures M st userLat userLon))
                   (allGeoJsonData (updateNearbyFeatures M st userLat userLon))"
    using updateNearbyFeatures_cases [of M st userLat userLon] filter_output_within
    by auto
next
  assume "allGeoJsonData st \<noteq> [] \<and> number_of userLat \<noteq> None \<and> number_of userLon \<noteq> None"
  then show "list_all2 (\<lambda>shown loaded. subseq (featuresOf shown) (featuresOf loaded))
          (geoJsonData (updateNearbyFeatures M st userLat userLon))
          (allGeoJsonData (updateNearbyFeatures M st userLat userLon))"
    using filter_output_subseq by (auto simp: updateNearbyFeatures_def)
qed

lemma isNearby_samples:
  "isNearby exactPlatform (Fin 0) (Fin 0) r (geoFeature ''Point'' (lonLat 0 0)) = num_le (Fin 0) r"
  "isNearby exactPlatform (Fin 0) (Fin 0) r (geoFeature ''LineString'' (JArr [lonLat 180 0, lonLat 0 0]))
     = num_le (Fin (6371 * pi)) r"
  by (simp_all add: isNearby_withinRadius withinRadius_samples)

lemma sample_update:
  "map featuresOf (geoJsonData (updateNearbyFeatures exactPlatform sampleState (JNum (Fin 0)) (JNum (Fin 0))))
    = [[geoFeature ''Point'' (lonLat 0 0)]]"
proof -
  have far: "\<not> 6371 * pi \<le> (10::real)" using pi_ge_two by linarith
  show ?thesis
    by (simp add: updateNearbyFeatures_def sampleState_def filterNearbyFeatures_def
        featuresOf_filterDataset isNearby_samples far)
qed

theorem nearby_view_within_complete_view_witness:
  "viewWithin (geoJsonData sampleState) (allGeoJsonData sampleState)
   \<and> viewWithin (geoJsonData (updateNearbyFeatures exactPlatform sampleState (JNum (Fin 0)) (JNum (Fin 0))))
        (allGeoJsonData (updateNearbyFeatures exactPlatform sampleState (JNum (Fin 0)) (JNum (Fin 0))))
   \<and> map featuresOf (geoJsonData (updateNearbyFeatures exactPlatform sampleState (JNum (Fin 0)) (JNum (Fin 0))))
      = [[geoFeature ''Point'' (lonLat 0 0)]]"
proof -
  have pre: "viewWithin (geoJsonData sampleState) (allGeoJsonData sampleState)"
    by (simp add: viewWithin_def sampleState_def)
  show ?thesis
    using pre sample_update
      nearby_view_within_complete_view [of exactPlatform "[]" "Fin 0" "Fin 0" "Fin 10"
        sampleState "JNum (Fin 0)" "JNum (Fin 0)"]
    by simp
qed

subsection \<open>Rejected reference points\<close>

text \<open>
  Claim C5, as the code has it. A latitude or longitude that is not a number, or is NaN,
  is rejected: the state (reference, complete view and nearby view) is returned as it
  was, and the filter is not run.
\<close>

theorem updateNearbyFeatures_rejects_invalid_reference:
  assumes "number_of userLat = None \<or> number_of userLon = None"
  shows "updateNearbyFeatures M st userLat userLon = st"
  using assms by (auto simp: updateNearbyFeatures_def split: option.splits)

theorem updateNearbyFeatures_rejects_invalid_reference_witness:
  "number_of (JNum NaN) = None
   \<and> updateNearbyFeatures exactPlatform sampleState (JNum NaN) (JNum (Fin 120)) = sampleState
   \<and> number_of (JStr ''14.6'') = None
   \<and> updateNearbyFeatures exactPlatform sampleState (JNum (Fin 14)) (JStr ''14.6'') = sampleState"
  using updateNearbyFeatures_rejects_invalid_reference
      [of "JNum NaN" "JNum (Fin 120)" exactPlatform sampleState]
    updateNearbyFeatures_rejects_invalid_reference
      [of "JNum (Fin 14)" "JStr ''14.6''" exactPlatform sampleState]
  by simp

lemma distance_infinite_reference: "calculateDistance M PInf lo1 la2 lo2 = NaN"
  by (cases la2) (simp_all add: calculateDistance_def Let_def num_sub_def inf_of_sign_def)

lemma isNearby_infinite_reference: "isNearby M PInf lo r f = False"
  by (simp add: isNearby_withinRadius withinRadius_def distance_infinite_reference
        split: option.splits)

text \<open>
  Claim C5 as stated (every non-finite latitude or longitude) fails: an infinite
  latitude passes \<^verbatim>\<open>typeof\<close> and \<^verbatim>\<open>isNaN\<close>, the filter runs against it,
  every distance is NaN (on every platform, by the two lemmas above), and the nearby
  view loses all its features.
\<close>

theorem infinite_reference_counterexample:
  "map featuresOf (geoJsonData sampleState) =
     [[geoFeature ''Point'' (lonLat 0 0),
       geoFeature ''LineString'' (JArr [lonLat 180 0, lonLat 0 0])]]
   \<and> map featuresOf
       (geoJsonData (updateNearbyFeatures exactPlatform sampleState (JNum PInf) (JNum (Fin 0)))) = [[]]"
  by (simp add: updateNearbyFeatures_def sampleState_def filterNearbyFeatures_def
        featuresOf_filterDataset isNearby_infinite_reference)

subsection \<open>What the filter leaves as it was\<close>

lemma getProp_update_other:
  "key \<noteq> k \<Longrightarrow> getProp (JObj (AList.update k v kvs)) key = getProp (JObj kvs) key"
  by (simp add: update_conv')

lemma filterDataset_other_fields:
  assumes "getProp dataset ''features'' = JArr fs" and "key \<noteq> ''features''"
  shows "getProp (filterDataset M la lo r dataset) key = getProp dataset key"
proof -
  obtain kvs where d: "dataset = JObj kvs" using assms(1) by (cases dataset) simp_all
  have "filterDataset M la lo r dataset =
          JObj (AList.update ''features'' (JArr (filter (isNearby M la lo r) fs)) kvs)"
    using assms(1) unfolding d by (simp add: filterDataset_def del: getProp.simps)
  then show ?thesis
    using getProp_update_other [OF assms(2)] unfolding d by simp
qed

text \<open>
  Claim C10, as the code has it. For a dataset that passes the guard (it has an array
  under \<^verbatim>\<open>features\<close>), the returned dataset has every field other than
  \<^verbatim>\<open>features\<close> as in the input, at the same position of the list; and
  \<open>updateNearbyFeatures\<close> never assigns the complete view. (The functions only read
  their input: \<^verbatim>\<open>map\<close>, \<^verbatim>\<open>filter\<close> and the spread build new values.)
\<close>

theorem filterNearbyFeatures_preserves_other_fields:
  assumes "i < length data"
    and "getProp (data ! i) ''features'' = JArr fs"
    and "key \<noteq> ''features''"
  shows "length (filterNearbyFeatures M (JArr data) refLat refLon radiusKm) = length data
       \<and> getProp (filterNearbyFeatures M (JArr data) refLat refLon radiusKm ! i) key
           = getProp (data ! i) key
       \<and> allGeoJsonData (updateNearbyFeatures M st userLat userLon) = allGeoJsonData st"
proof -
  have "allGeoJsonData (updateNearbyFeatures M st userLat userLon) = allGeoJsonData st"
    by (simp add: updateNearbyFeatures_def split: option.splits)
  then show ?thesis
    using assms by (simp add: filterNearbyFeatures_def filterDataset_other_fields)
qed

theorem filterNearbyFeatures_preserves_other_fields_witness:
  "getProp (filterNearbyFeatures exactPlatform
              (JArr [JObj [(''name'', JStr ''highways-layer-0''),
                           (''features'', JArr [geoFeature ''Polygon'' (JArr [])])]])
              (Fin 0) (Fin 0) (Fin 10) ! 0) ''name'' = JStr ''highways-layer-0''
   \<and> allGeoJsonData (updateNearbyFeatures exactPlatform sampleState (JNum (Fin 0)) (JNum (Fin 0)))
       = allGeoJsonData sampleState"
  using filterNearbyFeatures_preserves_other_fields
    [of 0 "[JObj [(''name'', JStr ''highways-layer-0''),
                  (''features'', JArr [geoFeature ''Polygon'' (JArr [])])]]"
        "[geoFeature ''Polygon'' (JArr [])]" "''name''" exactPlatform "Fin 0" "Fin 0" "Fin 10"
        sampleState "JNum (Fin 0)" "JNum (Fin 0)"]
  by simp

text \<open>
  Claim C10 as stated (every input dataset) fails: a dataset that does not pass the
  guard is replaced by a fresh empty collection, and its other fields are lost.
\<close>

theorem invalid_dataset_fields_counterexample:
  "getProp unlabelledDataset ''name'' = JStr ''highways-layer-0''
   \<and> filterNearbyFeatures exactPlatform (JArr [unlabelledDataset]) (Fin 0) (Fin 0) (Fin 10)
       = [emptyCollection]
   \<and> getProp (filterNearbyFeatures exactPlatform (JArr [unlabelledDataset]) (Fin 0) (Fin 0) (Fin 10) ! 0)
        ''name'' = JUndefined"
  by (simp add: unlabelledDataset_def filterNearbyFeatures_def filterDataset_def
        emptyCollection_def)

section \<open>Properties of ingestion\<close>

lemma geometry_makeFeature [simp]: "getProp (makeFeature p g) ''geometry'' = g"
  by (simp add: makeFeature_def)

lemma makeFeature_not_null [simp]: "makeFeature p g \<noteq> JNull"
  by (simp add: makeFeature_def)

lemma toFeature_decoded:
  "truthy (geom p) \<Longrightarrow>
   (toFeature parse p \<noteq> JNull) = (decodedGeometry parse p \<noteq> None)"
  "truthy (geom p) \<Longrightarrow> decodedGeometry parse p = Some g \<Longrightarrow>
   getProp (toFeature parse p) ''geometry'' = g"
  by (auto simp: toFeature_def decodedGeometry_def split: jsval.splits option.splits)

lemma decoded_falsy: "\<not> truthy (geom p) \<Longrightarrow> decodedGeometry parse p = None"
  by (simp add: decodedGeometry_def)

text \<open>
  Claim C6, as the code has it. Ingestion drops a row exactly when its \<^verbatim>\<open>geom\<close> is
  falsy (absent) or is a text that does not decode; every other row yields a feature
  with the geometry as received or decoded, in the order of the rows, so that dropping
  one row does not stop the rest. The coordinates are not inspected: there is no
  finiteness or range test.
\<close>

theorem ingestion_keeps_decodable_geometries:
  "map (\<lambda>feature. getProp feature ''geometry'') (geoJsonFeatures parse projects)
     = List.map_filter (decodedGeometry parse) projects"
proof (induction projects)
  case Nil
  show ?case by (simp add: geoJsonFeatures_def)
next
  case (Cons p ps)
  show ?case
  proof (cases "truthy (geom p)")
    case False
    then show ?thesis
      using Cons decoded_falsy [OF False, of parse]
      by (simp add: geoJsonFeatures_def)
  next
    case True
    show ?thesis
    proof (cases "decodedGeometry parse p")
      case None
      then show ?thesis
        using Cons True toFeature_decoded(1) [OF True, of parse]
        by (simp add: geoJsonFeatures_def)
    next
      case (Some g)
      then show ?thesis
        using Cons True toFeature_decoded(1) [OF True, of parse]
          toFeature_decoded(2) [OF True Some]
        by (simp add: geoJsonFeatures_def)
    qed
  qed
qed

theorem ingestion_keeps_decodable_geometries_witness:
  "map (\<lambda>feature. getProp feature ''geometry'')
     (geoJsonFeatures sampleParse
        [sampleProject (JStr ''not json''),
         sampleProject JNull,
         sampleProject (pointGeometry (lonLat 200 95)),
         sampleProject (JStr ''{}'')])
   = [pointGeometry (lonLat 200 95), JObj []]"
  unfolding ingestion_keeps_decodable_geometries
  by (simp add: decodedGeometry_def sampleProject_def sampleParse_def pointGeometry_def)

text \<open>
  Claim C6 as stated fails: a Point at longitude 200, latitude 95, and a Point with an
  infinite longitude, both violate the coordinate invariant and both are kept.
\<close>

theorem invalid_coordinates_kept_counterexample:
  "validCoordinate (lonLat 200 95) = False
   \<and> validCoordinate (JArr [JNum PInf, JNum (Fin 0)]) = False
   \<and> map (\<lambda>feature. getProp feature ''geometry'')
       (geoJsonFeatures sampleParse
          [sampleProject (pointGeometry (lonLat 200 95)),
           sampleProject (pointGeometry (JArr [JNum PInf, JNum (Fin 0)]))])
     = [pointGeometry (lonLat 200 95), pointGeometry (JArr [JNum PInf, JNum (Fin 0)])]"
  by (simp add: lonLat_def geoJsonFeatures_def toFeature_def sampleProject_def
        pointGeometry_def)

section \<open>Properties of the render primitive mapper\<close>

lemma collect_total:
  "(\<And>x. x \<in> set xs \<Longrightarrow> f x = Inr (g x)) \<Longrightarrow> collect f xs = Inr (concat (map g xs))"
  by (induction xs) simp_all

lemma renderLine_array:
  "renderLine color width feature (JArr vs) =
     Inr (if convertCoordinates vs = [] then []
          else [Polyline (convertCoordinates vs) color width None feature])"
  by (simp add: renderLine_def Let_def)

lemma concat_map_if:
  "concat (map (\<lambda>x. if P x then [] else [h x]) xs) = map h (filter (\<lambda>x. \<not> P x) xs)"
  by (induction xs) simp_all

lemma collect_renderLine:
  "collect (renderLine color width feature) (map JArr lines) =
     Inr (map (\<lambda>vs. Polyline (convertCoordinates vs) color width None feature)
            (filter (\<lambda>vs. convertCoordinates vs \<noteq> []) lines))"
proof -
  have "collect (renderLine color width feature) (map JArr lines) =
     Inr (concat (map (\<lambda>l. case l of JArr vs \<Rightarrow> (if convertCoordinates vs = [] then []
          else [Polyline (convertCoordinates vs) color width None feature]) | _ \<Rightarrow> []) (map JArr lines)))"
    by (rule collect_total) (auto simp: renderLine_array)
  then show ?thesis by (simp add: comp_def concat_map_if)
qed

lemma truthy_of_prop: "getProp v k = w \<Longrightarrow> truthy w \<Longrightarrow> truthy v"
  by (cases v) auto

lemma truthy_samples [simp]:
  "truthy (geoFeature kind cs)" "truthy (featureCollection fs)"
  by (simp_all add: geoFeature_def featureCollection_def)

lemma validCoord_samples [simp]:
  "validCoord (lonLat x y)" "\<not> validCoord JNull" "\<not> validCoord (JArr [v])"
  by (simp_all add: validCoord_def lonLat_def)

lemma toLatLng_lonLat [simp]:
  "toLatLng (lonLat x y) = \<lparr>latitude = JNum (Fin y), longitude = JNum (Fin x)\<rparr>"
  by (simp add: lonLat_def)

subsection \<open>MultiLineString\<close>

text \<open>
  When every constituent line of a MultiLineString feature is an array (the callback
  declares \<^verbatim>\<open>lineCoords: number[][]\<close>), the mapper emits one polyline per line
  that has at least one valid vertex, in the order of the lines and with the valid
  vertices of that line; a line without a valid vertex is skipped, the other lines are
  not affected. The instances are the feature with one well-formed line and one empty
  line (one polyline), and a feature with a line of invalid vertices only.
\<close>

lemma multiline_one_polyline_per_valid_line:
  assumes "getProp (getProp feature ''geometry'') ''type'' = JStr ''MultiLineString''"
    and "getProp (getProp feature ''geometry'') ''coordinates'' = JArr (map JArr lines)"
  shows "renderFeature strokeColor strokeWidth feature =
     Inr (map (\<lambda>vs. Polyline (convertCoordinates vs) strokeColor strokeWidth None feature)
            (filter (\<lambda>vs. convertCoordinates vs \<noteq> []) lines))"
proof -
  have g: "truthy (getProp feature ''geometry'')"
    using assms(1) by (rule truthy_of_prop) simp
  have f: "truthy feature"
    using refl g by (rule truthy_of_prop)
  show ?thesis
    using f g assms by (simp add: renderFeature_def Let_def collect_renderLine)
qed

lemma multiline_one_polyline_per_valid_line_instance:
  "renderFeature ''#FF6B6B'' 2
     (geoFeature ''MultiLineString'' (JArr [JArr [lonLat 120 14, lonLat 121 15], JArr []]))
   = Inr [Polyline [\<lparr>latitude = JNum (Fin 14), longitude = JNum (Fin 120)\<rparr>,
                    \<lparr>latitude = JNum (Fin 15), longitude = JNum (Fin 121)\<rparr>]
            ''#FF6B6B'' 2 None
            (geoFeature ''MultiLineString''
               (JArr [JArr [lonLat 120 14, lonLat 121 15], JArr []]))]
   \<and> renderFeature ''#FF6B6B'' 2
     (geoFeature ''MultiLineString''
        (JArr [JArr [JNull, JArr [JNum (Fin 1)]], JArr [JNull, lonLat 120 14]]))
   = Inr [Polyline [\<lparr>latitude = JNum (Fin 14), longitude = JNum (Fin 120)\<rparr>]
            ''#FF6B6B'' 2 None
            (geoFeature ''MultiLineString''
               (JArr [JArr [JNull, JArr [JNum (Fin 1)]], JArr [JNull, lonLat 120 14]]))]"
  using multiline_one_polyline_per_valid_line
      [of "geoFeature ''MultiLineString'' (JArr [JArr [lonLat 120 14, lonLat 121 15], JArr []])"
          "[[lonLat 120 14, lonLat 121 15], []]" "''#FF6B6B''" 2]
    multiline_one_polyline_per_valid_line
      [of "geoFeature ''MultiLineString''
             (JArr [JArr [JNull, JArr [JNum (Fin 1)]], JArr [JNull, lonLat 120 14]])"
          "[[JNull, JArr [JNum (Fin 1)]], [JNull, lonLat 120 14]]" "''#FF6B6B''" 2]
  by (simp add: convertCoordinates_def)

text \<open>
  Claim C7 fails on the code at a constituent line that is not an array:
  \<^verbatim>\<open>lineCoords.filter\<close> is called without a test and throws, so the invalid line
  is not skipped, the feature yields no polyline, and the exception ends the rendering
  of the whole collection, the well-formed features with it. The LineString branch and
  the Polygon branch test \<^verbatim>\<open>Array.isArray\<close> before they call
  \<^verbatim>\<open>filter\<close>, and the proximity filter tests it on the first line of a
  MultiLineString.
\<close>

theorem multiline_non_array_line_throws:
  "renderFeature ''#FF6B6B'' 2
     (geoFeature ''MultiLineString'' (JArr [JArr [lonLat 120 14, lonLat 121 15], JNull]))
   = Inl TypeError
   \<and> GeoJSONLayer
       (featureCollection
          [geoFeature ''LineString'' (JArr [lonLat 0 0, lonLat 1 1]),
           geoFeature ''MultiLineString''
             (JArr [JArr [lonLat 120 14, lonLat 121 15], JNull])])
       ''#FF6B6B'' 2
   = Inl TypeError"
  by (simp add: GeoJSONLayer_def featureCollection_def renderFeature_def Let_def
        renderLine_def geoFeature_def convertCoordinates_def)

subsection \<open>Polygon\<close>

text \<open>
  Claim C8. For a Polygon feature whose outer (first) ring is not empty, that is, has at
  least one vertex \<^verbatim>\<open>[lon, lat, ...]\<close>, and whatever the rings after it, the mapper
  emits exactly one polyline: its vertices are the vertices of the outer ring (those
  that pass the vertex test), its fill colour is the stroke colour followed by the alpha
  digits \<^verbatim>\<open>20\<close>, and it reports the feature itself when pressed. The hole rings
  occur nowhere in the result.
\<close>

theorem polygon_one_outline_from_outer_ring:
  assumes "getProp (getProp feature ''geometry'') ''type'' = JStr ''Polygon''"
    and "getProp (getProp feature ''geometry'') ''coordinates'' = JArr (JArr ring # holes)"
    and "convertCoordinates ring \<noteq> []"
  shows "renderFeature strokeColor strokeWidth feature =
     Inr [Polyline (convertCoordinates ring) strokeColor strokeWidth
            (Some (strokeColor @ ''20'')) feature]"
proof -
  have g: "truthy (getProp feature ''geometry'')"
    using assms(1) by (rule truthy_of_prop) simp
  have f: "truthy feature"
    using refl g by (rule truthy_of_prop)
  show ?thesis
    using f g assms by (simp add: renderFeature_def Let_def)
qed

theorem polygon_one_outline_from_outer_ring_witness:
  "renderFeature ''#2ECC71'' 2
     (geoFeature ''Polygon''
        (JArr [JArr [lonLat 0 0, lonLat 4 0, lonLat 4 4, lonLat 0 0],
               JArr [lonLat 1 1, lonLat 2 1, lonLat 2 2, lonLat 1 1]]))
   = Inr [Polyline [\<lparr>latitude = JNum (Fin 0), longitude = JNum (Fin 0)\<rparr>,
                    \<lparr>latitude = JNum (Fin 0), longitude = JNum (Fin 4)\<rparr>,
                    \<lparr>latitude = JNum (Fin 4), longitude = JNum (Fin 4)\<rparr>,
                    \<lparr>latitude = JNum (Fin 0), longitude = JNum (Fin 0)\<rparr>]
            ''#2ECC71'' 2 (Some ''#2ECC7120'')
            (geoFeature ''Polygon''
               (JArr [JArr [lonLat 0 0, lonLat 4 0, lonLat 4 4, lonLat 0 0],
                      JArr [lonLat 1 1, lonLat 2 1, lonLat 2 2, lonLat 1 1]]))]"
  using polygon_one_outline_from_outer_ring
      [of "geoFeature ''Polygon''
             (JArr [JArr [lonLat 0 0, lonLat 4 0, lonLat 4 4, lonLat 0 0],
                    JArr [lonLat 1 1, lonLat 2 1, lonLat 2 2, lonLat 1 1]])"
          "[lonLat 0 0, lonLat 4 0, lonLat 4 4, lonLat 0 0]"
          "[JArr [lonLat 1 1, lonLat 2 1, lonLat 2 2, lonLat 1 1]]" "''#2ECC71''" 2]
  by (simp add: convertCoordinates_def)

subsection \<open>Stroke colour and width\<close>

lemma collect_all:
  "collect f xs = Inr qs \<Longrightarrow>
   \<forall>x \<in> set xs. \<forall>ps. f x = Inr ps \<longrightarrow> (\<forall>p \<in> set ps. Q p) \<Longrightarrow>
   \<forall>p \<in> set qs. Q p"
proof (induction xs arbitrary: qs)
  case Nil
  then show ?case by simp
next
  case (Cons x xs)
  from Cons.prems(1) obtain ps rs where
    px: "f x = Inr ps" and rs: "collect f xs = Inr rs" and qs: "qs = ps @ rs"
    by (auto split: sum.splits)
  have "\<forall>p \<in> set ps. Q p" using Cons.prems(2) px by simp
  moreover have "\<forall>p \<in> set rs. Q p"
    using Cons.IH [OF rs] Cons.prems(2) by simp
  ultimately show ?case using qs by auto
qed

lemma renderLine_stroke:
  "renderLine c w feature l = Inr ps \<Longrightarrow> \<forall>p \<in> set ps. strokeOk c w p"
  by (auto simp: renderLine_def Let_def strokeOk_def split: jsval.splits if_splits)

lemma renderFeature_stroke:
  assumes "renderFeature c w feature = Inr ps"
  shows "\<forall>p \<in> set ps. strokeOk c w p"
proof -
  have lines: "\<And>ls qs. collect (renderLine c w feature) ls = Inr qs \<Longrightarrow> \<forall>p \<in> set qs. strokeOk c w p"
    using collect_all [where f = "renderLine c w feature" and Q = "strokeOk c w"]
      renderLine_stroke by blast
  show ?thesis
    using assms lines
    by (auto simp: renderFeature_def Let_def strokeOk_def
        split: if_splits jsval.splits sum.splits)
qed

lemma GeoJSONLayer_stroke:
  assumes "GeoJSONLayer data c w = Inr ps"
  shows "\<forall>p \<in> set ps. strokeOk c w p"
proof -
  have "\<And>fs qs. collect (renderFeature c w) fs = Inr qs \<Longrightarrow> \<forall>p \<in> set qs. strokeOk c w p"
    using collect_all [where f = "renderFeature c w" and Q = "strokeOk c w"]
      renderFeature_stroke by blast
  then show ?thesis
    using assms by (auto simp: GeoJSONLayer_def split: if_splits jsval.splits)
qed

text \<open>
  Claim C9, as the code has it. Every polyline emitted for the collection at an index has
  the stroke colour and the stroke width that the screen computes from that index alone
  (a marker has no stroke): the colour is the palette entry of the index for the indices
  0 to 4 and the sixth palette entry for every index from 5 on, the width is 3 for the
  index 5 and 2 for every other index.
\<close>

theorem stroke_determined_by_collection_index:
  assumes "renderCollection index data = Inr ps" and "p \<in> set ps"
  shows "(polylineStroke p = None
           \<or> polylineStroke p = Some (strokeColorFor index, strokeWidthFor index))
       \<and> strokeColorFor index = (if index < 5 then palette ! index else palette ! 5)
       \<and> strokeWidthFor index = (if index = 5 then 3 else 2)"
proof -
  have "strokeOk (strokeColorFor index) (strokeWidthFor index) p"
    using GeoJSONLayer_stroke assms unfolding renderCollection_def by blast
  moreover have "strokeColorFor index = (if index < 5 then palette ! index else palette ! 5)"
  proof -
    consider "index = 0" | "index = 1" | "index = 2" | "index = 3" | "index = 4" | "5 \<le> index"
      by linarith
    then show ?thesis
      by cases (simp_all add: strokeColorFor_def palette_def)
  qed
  ultimately show ?thesis by (simp add: strokeOk_def strokeWidthFor_def)
qed

lemma render_sample_line:
  "renderCollection 5 (featureCollection [geoFeature ''LineString'' (JArr [lonLat 0 0, lonLat 1 1])])
   = Inr [Polyline [\<lparr>latitude = JNum (Fin 0), longitude = JNum (Fin 0)\<rparr>,
                    \<lparr>latitude = JNum (Fin 1), longitude = JNum (Fin 1)\<rparr>]
            ''#F1C40F'' 3 None (geoFeature ''LineString'' (JArr [lonLat 0 0, lonLat 1 1]))]"
  by (simp add: renderCollection_def GeoJSONLayer_def featureCollection_def renderFeature_def
        Let_def convertCoordinates_def strokeColorFor_def strokeWidthFor_def)

theorem stroke_determined_by_collection_index_witness:
  "renderCollection 5 (featureCollection [geoFeature ''LineString'' (JArr [lonLat 0 0, lonLat 1 1])])
   = Inr [Polyline [\<lparr>latitude = JNum (Fin 0), longitude = JNum (Fin 0)\<rparr>,
                    \<lparr>latitude = JNum (Fin 1), longitude = JNum (Fin 1)\<rparr>]
            ''#F1C40F'' 3 None (geoFeature ''LineString'' (JArr [lonLat 0 0, lonLat 1 1]))]
   \<and> strokeColorFor 5 = palette ! 5 \<and> strokeWidthFor 5 = 3"
  using render_sample_line
    stroke_determined_by_collection_index [OF render_sample_line, of
      "Polyline [\<lparr>latitude = JNum (Fin 0), longitude = JNum (Fin 0)\<rparr>,
                    \<lparr>latitude = JNum (Fin 1), longitude = JNum (Fin 1)\<rparr>]
            ''#F1C40F'' 3 None (geoFeature ''LineString'' (JArr [lonLat 0 0, lonLat 1 1]))"]
  by simp

text \<open>
  Claim C9 as stated fails: the colour of index 6 is the sixth palette entry, not the
  first (no cycling); of two collections the last (index 1) is as wide as the first, and
  of seven the last (index 6) is narrower than index 5; and the marker of a Point carries
  no stroke at all.
\<close>

theorem stroke_palette_counterexample:
  "strokeColorFor 6 = ''#F1C40F'' \<and> cyclicColor 6 = ''#FF6B6B''
   \<and> strokeWidthFor 0 = 2 \<and> strokeWidthFor 1 = 2
   \<and> strokeWidthFor 5 = 3 \<and> strokeWidthFor 6 = 2
   \<and> renderCollection 0 (featureCollection [geoFeature ''Point'' (lonLat 0 0)])
       = Inr [Marker \<lparr>latitude = JNum (Fin 0), longitude = JNum (Fin 0)\<rparr>
                (JStr ''Infrastructure'') (JStr ''DPWH Infrastructure'')
                (geoFeature ''Point'' (lonLat 0 0))]
   \<and> polylineStroke (Marker \<lparr>latitude = JNum (Fin 0), longitude = JNum (Fin 0)\<rparr>
                (JStr ''Infrastructure'') (JStr ''DPWH Infrastructure'')
                (geoFeature ''Point'' (lonLat 0 0))) = None"
  by (simp add: strokeColorFor_def cyclicColor_def palette_def strokeWidthFor_def
        renderCollection_def GeoJSONLayer_def featureCollection_def renderFeature_def
        Let_def geoFeature_def lonLat_def jsOr_def)

end
